theory Spec2Isabelle
  imports Main "HOL-Library.Word"
begin

section \<open>Values, errors and panics\<close>

text \<open>
  Go's \<^verbatim>\<open>[]byte\<close> and \<^verbatim>\<open>string\<close> are both byte sequences; a HOL \<open>char\<close> is one byte.
\<close>

type_synonym bytes = string

text \<open>
  A value held in an \<^verbatim>\<open>interface{}\<close>: what \<^verbatim>\<open>json.Unmarshal\<close> stores there (nil, bool,
  float64, string, slice, string-keyed map) and the \<^verbatim>\<open>int64\<close> that \<^verbatim>\<open>Client.Write\<close> puts
  under \<^verbatim>\<open>"id"\<close>. A float64 is carried as its 64 bits; no arithmetic is done on it.
\<close>

datatype val =
    VNil
  | VBool bool
  | VFloat64 "64 word"
  | VInt64 "64 word"
  | VString string
  | VSlice "val list"
  | VMap "string \<Rightarrow> val option"

text \<open>A Go \<^verbatim>\<open>error\<close> value, identified by its message.\<close>

datatype error = Error string

text \<open>The run-time panics the modelled code can raise, and a handler's own panic.\<close>

datatype panic =
    InterfaceConversion
  | NilMapAssignment
  | NilPointerDereference
  | HandlerPanic string

section \<open>ServeMux\<close>

text \<open>
  \<^verbatim>\<open>eventHandler\<close> of \<^verbatim>\<open>rtm.go\<close>. A \<^verbatim>\<open>Handler\<close> is an interface value: \<open>None\<close> is the nil
  interface, \<open>Some h\<close> a handler identified by \<open>h\<close>; what calling it does is given
  separately (the \<open>call\<close> argument of the functions below).
\<close>

record 'h eventHandler =
  handler :: "'h option"
  pattern :: string

text \<open>
  \<^verbatim>\<open>ServeMux\<close>: the field \<^verbatim>\<open>m map[string]eventHandler\<close>. The mutex \<^verbatim>\<open>mu\<close> has no
  counterpart in a sequential model.
\<close>

type_synonym 'h ServeMux = "string \<Rightarrow> 'h eventHandler option"

definition NewServeMux :: "'h ServeMux" where
  "NewServeMux = Map.empty"

definition Handle :: "'h ServeMux \<Rightarrow> string \<Rightarrow> 'h option \<Rightarrow> 'h ServeMux" where
  "Handle mux p h = mux(p \<mapsto> \<lparr>handler = h, pattern = p\<rparr>)"

text \<open>
  \<^verbatim>\<open>event.(map[string]interface{})["type"].(string)\<close>: both type assertions are of the
  one-result form, which panics when the dynamic type differs; indexing a map at a missing
  key gives the nil interface, on which the second assertion panics as well.
\<close>

fun eventType :: "val \<Rightarrow> panic + string" where
  "eventType (VMap obj) =
     (case obj ''type'' of
        Some (VString s) \<Rightarrow> Inr s
      | _ \<Rightarrow> Inl InterfaceConversion)"
| "eventType _ = Inl InterfaceConversion"

definition Handler :: "'h ServeMux \<Rightarrow> val \<Rightarrow> panic + ('h option \<times> string)" where
  "Handler mux event =
     (case eventType event of
        Inl p \<Rightarrow> Inl p
      | Inr eType \<Rightarrow>
          (case mux eType of
             Some e \<Rightarrow> Inr (handler e, pattern e)
           | None \<Rightarrow> Inr (None, '''')))"

section \<open>Effects and the state of the program\<close>

text \<open>
  One argument of a \<^verbatim>\<open>log.Println\<close> or \<^verbatim>\<open>log.Printf\<close> call.
\<close>

datatype logarg =
    LStr string
  | LInt int
  | LBool bool
  | LErr error
  | LMap "string \<Rightarrow> val option"

text \<open>
  What the code does to the outside, in the order it does it: a log line (the arguments as
  passed), a \<^verbatim>\<open>time.Sleep\<close> and the arming of the watchdog timer (both in seconds), the
  request to the \<^verbatim>\<open>rtm.start\<close> endpoint (its URL), the dial of the socket (URL and origin), a
  frame handed to \<^verbatim>\<open>c.ws.Write\<close>, and the two deferred \<^verbatim>\<open>Close\<close> calls.
\<close>

datatype effect =
    Log "logarg list"
  | Sleep nat
  | WatchdogAfterFunc nat
  | WatchdogReset nat
  | HttpGet string
  | WsDial string string
  | WsWrite bytes
  | WsClose
  | BodyClose

text \<open>A dialed \<^verbatim>\<open>*websocket.Conn\<close>: the URL and the origin it was opened with.\<close>

datatype conn = Conn string string

text \<open>\<^verbatim>\<open>Client\<close>; \<open>ws = None\<close> is the nil pointer. \<^verbatim>\<open>Client{}\<close> is the zero value.\<close>

record Client =
  ws :: "conn option"
  sendID :: "64 word"

definition Client_zero :: Client where
  "Client_zero = \<lparr>ws = None, sendID = 0\<rparr>"

text \<open>
  The state the code works on: the client \<^verbatim>\<open>c\<close>, the mux (the package has one,
  \<^verbatim>\<open>DefaultServeMux\<close>) and the effects so far.
\<close>

record 'h world =
  client :: Client
  router :: "'h ServeMux"
  trace :: "effect list"

definition emit :: "effect \<Rightarrow> 'h world \<Rightarrow> 'h world" where
  "emit e w = w\<lparr>trace := trace w @ [e]\<rparr>"

text \<open>
  The libraries the code calls (\<^verbatim>\<open>encoding/json\<close>, \<^verbatim>\<open>net/http\<close>, \<^verbatim>\<open>os\<close>,
  \<^verbatim>\<open>golang.org/x/net/websocket\<close>) are parameters of the model. \<open>http_Get\<close> gives the
  bytes \<^verbatim>\<open>ioutil.ReadAll\<close> obtains from the response body (the code ignores the error of
  \<^verbatim>\<open>ReadAll\<close>); \<open>ws_Write\<close> gives the result of \<^verbatim>\<open>c.ws.Write\<close>, which may depend on
  what happened before.
\<close>

text \<open>\<^verbatim>\<open>StartResponse\<close>; its field \<^verbatim>\<open>Error\<close> is \<open>Error_text\<close> here.\<close>

record StartResponse =
  Ok :: bool
  Error_text :: string
  URL :: string

record ext =
  json_Unmarshal :: "bytes \<Rightarrow> error + val"
  json_Unmarshal_StartResponse :: "bytes \<Rightarrow> error + StartResponse"
  json_Marshal :: "(string \<Rightarrow> val option) \<Rightarrow> error + bytes"
  http_Get :: "string \<Rightarrow> error + bytes"
  os_Getenv :: "string \<Rightarrow> string"
  websocket_Dial :: "string \<Rightarrow> string \<Rightarrow> string \<Rightarrow> error + conn"
  ws_Write :: "effect list \<Rightarrow> bytes \<Rightarrow> int \<times> error option"

section \<open>The write path\<close>

text \<open>
  \<^verbatim>\<open>Client.Write\<close>. The argument is a Go map, which may be nil (\<open>None\<close>); assigning into a
  nil map panics. The map is shared with the caller, so the map with its \<^verbatim>\<open>"id"\<close> entry
  is part of the result. \<^verbatim>\<open>c.sendID++\<close> wraps around on \<^verbatim>\<open>int64\<close>. A nil \<^verbatim>\<open>c.ws\<close>
  panics in \<^verbatim>\<open>c.ws.Write\<close>.
\<close>

definition Write ::
  "ext \<Rightarrow> (string \<Rightarrow> val option) option \<Rightarrow> 'h world
    \<Rightarrow> (panic + int \<times> error option) \<times> (string \<Rightarrow> val option) option \<times> 'h world" where
  "Write x msg w =
     (case msg of
        None \<Rightarrow> (Inl NilMapAssignment, None, w)
      | Some m0 \<Rightarrow>
          (let c = client w;
               m1 = m0(''id'' \<mapsto> VInt64 (sendID c));
               w1 = w\<lparr>client := c\<lparr>sendID := sendID c + 1\<rparr>\<rparr>;
               w2 = emit (Log [LStr ''rtm.start write %v'', LMap m1]) w1
           in case json_Marshal x m1 of
                Inl err \<Rightarrow> (Inr (- 1, Some err), Some m1, w2)
              | Inr data \<Rightarrow>
                  (case ws c of
                     None \<Rightarrow> (Inl NilPointerDereference, Some m1, w2)
                   | Some _ \<Rightarrow> (Inr (ws_Write x (trace w2) data), Some m1, emit (WsWrite data) w2))))"

definition WriteMsg ::
  "ext \<Rightarrow> string \<Rightarrow> string \<Rightarrow> 'h world
    \<Rightarrow> (panic + int \<times> error option) \<times> (string \<Rightarrow> val option) option \<times> 'h world" where
  "WriteMsg x channel msgtext w =
     Write x (Some [''type'' \<mapsto> VString ''message'', ''channel'' \<mapsto> VString channel,
                    ''text'' \<mapsto> VString msgtext]) w"

section \<open>Dispatch\<close>

text \<open>
  Calling a handler runs arbitrary code of the package's user on the state; it returns
  normally (\<open>None\<close>) or panics.
\<close>

type_synonym 'h call = "'h \<Rightarrow> val \<Rightarrow> 'h world \<Rightarrow> panic option \<times> 'h world"

text \<open>
  \<^verbatim>\<open>ServeMux.HandleEvent\<close>, for the mux of the state. A panic of \<^verbatim>\<open>mux.Handler\<close> or of the
  handler passes through: there is no \<^verbatim>\<open>recover\<close> in the package.
\<close>

definition HandleEvent :: "'h call \<Rightarrow> val \<Rightarrow> 'h world \<Rightarrow> panic option \<times> 'h world" where
  "HandleEvent call event w =
     (case Handler (router w) event of
        Inl p \<Rightarrow> (Some p, w)
      | Inr (h, _) \<Rightarrow>
          (case h of
             None \<Rightarrow> (None, w)
           | Some f \<Rightarrow> call f event w))"

section \<open>The listen loop\<close>

text \<open>
  The socket's input is a script: the results of the successive \<^verbatim>\<open>c.ws.Read(msg)\<close> calls,
  each the bytes delivered and the error returned with them. A \<^verbatim>\<open>Read\<close> delivers at most
  \<^verbatim>\<open>len(msg)\<close> bytes, into the front of the buffer; the rest of the buffer keeps what it held.
\<close>

type_synonym script = "(bytes \<times> error option) list"

definition ws_Read :: "bytes \<Rightarrow> bytes \<times> error option \<Rightarrow> bytes \<times> nat \<times> error option" where
  "ws_Read msg r =
     (let data = take (length msg) (fst r)
      in (data @ drop (length data) msg, length data, snd r))"

text \<open>
  The inner \<^verbatim>\<open>for\<close> of \<^verbatim>\<open>DialAndListen\<close>: read; while \<^verbatim>\<open>read == 4096 || err != nil\<close>, log
  (and sleep one second when nothing was read) and read again. \<open>Inl\<close>: the script ended, so
  the code is blocked in \<^verbatim>\<open>Read\<close>. \<open>Inr\<close>: the loop was left, with the buffer, \<^verbatim>\<open>read\<close>
  and the reads not yet consumed.
\<close>

fun drain :: "bytes \<Rightarrow> 'h world \<Rightarrow> script \<Rightarrow> 'h world + bytes \<times> nat \<times> 'h world \<times> script" where
  "drain msg w [] = Inl w"
| "drain msg w (r # rs) =
     (case ws_Read msg r of
        (msg', read, err) \<Rightarrow>
          if read = 4096 \<or> err \<noteq> None then
            drain msg'
              (if read = 0 then
                 emit (Sleep 1) (emit (Log [LStr ''rtm.start ######### ws timeout'']) w)
               else emit (Log [LStr ''rtm.start reading event'', LInt (int read)]) w)
              rs
          else Inr (msg', read, w, rs))"

text \<open>
  How a run of \<^verbatim>\<open>DialAndListen\<close> stands when the script is used up: it has returned an
  error, a panic has left it, or it is still in the loop, blocked in \<^verbatim>\<open>Read\<close>.
\<close>

datatype exit = Returned error | Panicked panic | Reading

text \<open>
  The \<^verbatim>\<open>handler\<close> argument of \<^verbatim>\<open>DialAndListen\<close>: its \<^verbatim>\<open>HandleEvent\<close>, or \<open>None\<close> for a nil
  interface.
\<close>

type_synonym 'h handle_event = "val \<Rightarrow> 'h world \<Rightarrow> panic option \<times> 'h world"

text \<open>The outer \<^verbatim>\<open>for\<close> of \<^verbatim>\<open>DialAndListen\<close>.\<close>

function listen ::
  "ext \<Rightarrow> 'h handle_event option \<Rightarrow> bytes \<Rightarrow> 'h world \<Rightarrow> script \<Rightarrow> exit \<times> 'h world" where
  "listen x hdl msg w rs =
     (case drain msg w rs of
        Inl w' \<Rightarrow> (Reading, w')
      | Inr (msg', read, w1, rs') \<Rightarrow>
          (let w2 = emit (WatchdogReset 25) w1
           in case json_Unmarshal x (take read msg') of
                Inl err \<Rightarrow>
                  listen x hdl msg'
                    (emit (Log [LStr ''rtm.start ###### error parsing event'',
                                LStr (take read msg'), LErr err]) w2)
                    rs'
              | Inr event \<Rightarrow>
                  (let w3 = emit (Log [LStr ''rtm.start handling event'', LStr (take read msg')]) w2
                   in case hdl of
                        None \<Rightarrow> (Panicked NilPointerDereference, w3)
                      | Some h \<Rightarrow>
                          (case h event w3 of
                             (Some p, w4) \<Rightarrow> (Panicked p, w4)
                           | (None, w4) \<Rightarrow> listen x hdl msg' w4 rs'))))"
  by pat_completeness auto
termination
proof -
  have shorter: "length rs' < length rs"
    if "drain msg w rs = Inr (msg', n, w', rs')"
    for msg msg' n rs rs' and w w' :: "'h world"
    using that
  proof (induction rs arbitrary: msg w)
    case Nil
    then show ?case by simp
  next
    case (Cons r rs)
    then show ?case
      by (fastforce split: prod.splits if_splits)
  qed
  show ?thesis
    by (relation "measure (\<lambda>(x, hdl, msg, w, rs). length rs)") (auto dest: shorter)
qed

declare listen.simps [simp del]

section \<open>DialAndListen\<close>

text \<open>\<^verbatim>\<open>make([]byte, 4096)\<close>\<close>

definition zero_buffer :: bytes where
  "zero_buffer = replicate 4096 (CHR 0x00)"

text \<open>
  \<^verbatim>\<open>Client.DialAndListen\<close>: the call of \<^verbatim>\<open>rtm.start\<close>, the dial and the loop. The deferred
  calls run when the function is left: \<^verbatim>\<open>resp.Body.Close\<close> on every return after the
  response was obtained; \<^verbatim>\<open>c.ws.Close\<close> before it once the socket is dialed, which happens
  only when a panic leaves the loop. The assignment \<^verbatim>\<open>c.ws, err = websocket.Dial(...)\<close>
  stores nil in \<^verbatim>\<open>c.ws\<close> when the dial fails.
\<close>

definition DialAndListen ::
  "ext \<Rightarrow> string \<Rightarrow> 'h handle_event option \<Rightarrow> 'h world \<Rightarrow> script \<Rightarrow> exit \<times> 'h world" where
  "DialAndListen x token hdl w rs =
     (let url = ''https://slack.com/api/rtm.start?token='' @ token;
          w1 = emit (HttpGet url) (emit (Log [LStr ''rtm.start'']) w)
      in case http_Get x url of
           Inl err \<Rightarrow> (Returned err, w1)
         | Inr body \<Rightarrow>
             (let w2 = emit (Log [LStr ''rtm.started'']) w1;
                  w3 = emit (Log [LStr ''rtm.start body'', LInt (int (length body))]) w2
              in case json_Unmarshal_StartResponse x body of
                   Inl err \<Rightarrow> (Returned err, emit BodyClose w3)
                 | Inr r \<Rightarrow>
                     (let w4 = emit (Log [LStr ''rtm.start body parsed'', LBool (Ok r),
                                          LStr (Error_text r), LStr (URL r)]) w3
                      in if \<not> Ok r then
                           (Returned (Error (''RTM API was not OK to start stream: '' @ Error_text r)),
                            emit BodyClose w4)
                         else
                           (let origin = os_Getenv x ''BITBOT_ORIGIN'';
                                w5 = emit (WsDial (URL r) origin)
                                       (emit (Log [LStr ''rtm.start origin'', LStr origin]) w4)
                            in case websocket_Dial x (URL r) [] origin of
                                 Inl err \<Rightarrow>
                                   (Returned err,
                                    emit BodyClose
                                      (emit (Log [LStr ''rtm.start encountered websocket.Dial'', LErr err])
                                         (w5\<lparr>client := (client w5)\<lparr>ws := None\<rparr>\<rparr>)))
                               | Inr sock \<Rightarrow>
                                   (let w6 = emit (Log [LStr ''rtm.start ws dialed''])
                                               (w5\<lparr>client := (client w5)\<lparr>ws := Some sock\<rparr>\<rparr>);
                                        msg = zero_buffer;
                                        w7 = emit (WatchdogAfterFunc 25) w6;
                                        w8 = emit (Log [LStr ''rtm.start ready to read event'']) w7
                                    in case listen x hdl msg w8 rs of
                                         (Panicked p, w9) \<Rightarrow>
                                           (Panicked p, emit BodyClose (emit WsClose w9))
                                       | (e, w9) \<Rightarrow> (e, w9))))))"

text \<open>
  The package-level \<^verbatim>\<open>DialAndListen\<close>: a fresh \<^verbatim>\<open>Client{}\<close> and \<^verbatim>\<open>DefaultServeMux\<close> as the
  handler.
\<close>

definition DialAndListen_default ::
  "ext \<Rightarrow> 'h call \<Rightarrow> string \<Rightarrow> 'h world \<Rightarrow> script \<Rightarrow> exit \<times> 'h world" where
  "DialAndListen_default x call token w rs =
     DialAndListen x token (Some (HandleEvent call)) (w\<lparr>client := Client_zero\<rparr>) rs"

section \<open>Sequences of calls\<close>

text \<open>A caller that registers the pairs of a list, in order, by \<^verbatim>\<open>mux.Handle\<close>.\<close>

definition Handle_all :: "'h ServeMux \<Rightarrow> (string \<times> 'h option) list \<Rightarrow> 'h ServeMux" where
  "Handle_all mux regs = foldl (\<lambda>m (p, h). Handle m p h) mux regs"

text \<open>
  A caller that passes the maps of a list, in order, to \<^verbatim>\<open>c.Write\<close> (going on after a
  panic, as a caller that recovers does), and reads the \<^verbatim>\<open>"id"\<close> entry of each map after
  the call.
\<close>

fun Write_ids :: "ext \<Rightarrow> (string \<Rightarrow> val option) list \<Rightarrow> 'h world \<Rightarrow> val option list" where
  "Write_ids x [] w = []"
| "Write_ids x (m0 # ms) w =
     (case Write x (Some m0) w of
        (_, m1, w') \<Rightarrow> (case m1 of None \<Rightarrow> None | Some m \<Rightarrow> m ''id'') # Write_ids x ms w')"

section \<open>Concrete inputs\<close>

text \<open>
  Frames, events and stand-ins for the libraries, for the closed examples. The stand-ins
  return what the libraries return on the inputs the examples give them:
  \<open>example_Unmarshal\<close> decodes the three well-formed frames below and rejects the other byte
  strings the examples feed it, none of which is JSON; \<open>example_Marshal\<close> writes the keys in
  sorted order, as \<^verbatim>\<open>encoding/json\<close> does for a map, for maps whose keys are among
  \<^verbatim>\<open>channel\<close>, \<^verbatim>\<open>id\<close>, \<^verbatim>\<open>text\<close>, \<^verbatim>\<open>type\<close> with plain strings and integers as values.
\<close>

definition quoted :: "string \<Rightarrow> string" where
  "quoted s = CHR 0x22 # s @ [CHR 0x22]"

text \<open>\<^verbatim>\<open>{"type":"hello"}\<close>\<close>

definition hello_frame :: bytes where
  "hello_frame = ''{'' @ quoted ''type'' @ '':'' @ quoted ''hello'' @ ''}''"

definition hello_event :: val where
  "hello_event = VMap [''type'' \<mapsto> VString ''hello'']"

text \<open>\<^verbatim>\<open>{"ok":true}\<close>: an object with no \<^verbatim>\<open>"type"\<close>.\<close>

definition ack_frame :: bytes where
  "ack_frame = ''{'' @ quoted ''ok'' @ '':true}''"

definition ack_event :: val where
  "ack_event = VMap [''ok'' \<mapsto> VBool True]"

text \<open>
  \<^verbatim>\<open>{"type":"hello","pad":"aaa...a"}\<close> with 4975 letters: a JSON object of 5000 bytes.
\<close>

definition big_frame :: bytes where
  "big_frame =
     ''{'' @ quoted ''type'' @ '':'' @ quoted ''hello'' @ '','' @ quoted ''pad'' @ '':''
       @ quoted (replicate 4975 (CHR ''a'')) @ ''}''"

definition big_event :: val where
  "big_event = VMap [''type'' \<mapsto> VString ''hello'', ''pad'' \<mapsto> VString (replicate 4975 (CHR ''a''))]"

definition example_Unmarshal :: "bytes \<Rightarrow> error + val" where
  "example_Unmarshal b =
     (if b = hello_frame then Inr hello_event
      else if b = ack_frame then Inr ack_event
      else if b = big_frame then Inr big_event
      else Inl (Error ''invalid character''))"

fun decimal :: "nat \<Rightarrow> string" where
  "decimal n =
     (if n < 10 then [''0123456789'' ! n] else decimal (n div 10) @ [''0123456789'' ! (n mod 10)])"

definition example_field :: "(string \<Rightarrow> val option) \<Rightarrow> string \<Rightarrow> string list" where
  "example_field m k =
     (case m k of
        Some (VString s) \<Rightarrow> [quoted k @ '':'' @ quoted s]
      | Some (VInt64 n) \<Rightarrow>
          [quoted k @ '':'' @ (if sint n < 0 then ''-'' @ decimal (nat (- sint n)) else decimal (nat (sint n)))]
      | _ \<Rightarrow> [])"

fun commas :: "string list \<Rightarrow> string" where
  "commas [] = []"
| "commas [s] = s"
| "commas (s # t # ss) = s @ '','' @ commas (t # ss)"

definition example_Marshal :: "(string \<Rightarrow> val option) \<Rightarrow> error + bytes" where
  "example_Marshal m =
     Inr (''{'' @ commas (concat (map (example_field m) [''channel'', ''id'', ''text'', ''type''])) @ ''}'')"

text \<open>
  The endpoint answers \<^verbatim>\<open>{"ok":false,"error":"invalid_auth"}\<close> to the token \<^verbatim>\<open>bad\<close> and
  \<^verbatim>\<open>{"ok":true,"url":"wss://example/ws"}\<close> to any other; \<^verbatim>\<open>BITBOT_ORIGIN\<close> is set to
  \<^verbatim>\<open>http://localhost\<close>; a dial with an origin succeeds and one with the empty origin fails, as
  \<^verbatim>\<open>websocket.Dial\<close> does when it parses the origin; every socket write succeeds.
\<close>

definition rejected_body :: bytes where
  "rejected_body = ''{'' @ quoted ''ok'' @ '':false,'' @ quoted ''error'' @ '':'' @ quoted ''invalid_auth'' @ ''}''"

definition accepted_body :: bytes where
  "accepted_body = ''{'' @ quoted ''ok'' @ '':true,'' @ quoted ''url'' @ '':'' @ quoted ''wss://example/ws'' @ ''}''"

definition example_StartResponse :: "bytes \<Rightarrow> error + StartResponse" where
  "example_StartResponse body =
     (if body = rejected_body then Inr \<lparr>Ok = False, Error_text = ''invalid_auth'', URL = []\<rparr>
      else if body = accepted_body then Inr \<lparr>Ok = True, Error_text = [], URL = ''wss://example/ws''\<rparr>
      else Inl (Error ''unexpected end of JSON input''))"

definition example_ext :: ext where
  "example_ext =
     \<lparr>json_Unmarshal = example_Unmarshal,
      json_Unmarshal_StartResponse = example_StartResponse,
      json_Marshal = example_Marshal,
      http_Get = (\<lambda>url. if url = ''https://slack.com/api/rtm.start?token=bad''
                          then Inr rejected_body else Inr accepted_body),
      os_Getenv = (\<lambda>name. if name = ''BITBOT_ORIGIN'' then ''http://localhost'' else []),
      websocket_Dial = (\<lambda>url protocol origin.
                          if origin = [] then Inl (Error (''parse '' @ quoted [] @ '': empty url''))
                          else Inr (Conn url origin)),
      ws_Write = (\<lambda>so_far data. (int (length data), None))\<rparr>"

text \<open>
  Three handlers: \<^verbatim>\<open>greeter\<close> calls \<^verbatim>\<open>resp.WriteMsg("C123", "ready")\<close>, \<^verbatim>\<open>faulty\<close> panics,
  any other returns at once.
\<close>

definition example_call :: "string call" where
  "example_call h event w =
     (if h = ''greeter'' then
        (case WriteMsg example_ext ''C123'' ''ready'' w of
           (Inl p, _, w') \<Rightarrow> (Some p, w')
         | (Inr _, _, w') \<Rightarrow> (None, w'))
      else if h = ''faulty'' then (Some (HandlerPanic ''boom''), w)
      else (None, w))"

text \<open>A dialed client that has written nothing, a mux and no effects yet.\<close>

definition example_world :: "string ServeMux \<Rightarrow> string world" where
  "example_world mux =
     \<lparr>client = \<lparr>ws = Some (Conn ''wss://example/ws'' ''http://localhost''), sendID = 0\<rparr>, router = mux, trace = []\<rparr>"

section \<open>Steps of the listen loop\<close>

lemma ws_Read_fits:
  "length data \<le> length msg \<Longrightarrow>
   ws_Read msg (data, e) = (data @ drop (length data) msg, length data, e)"
  by (simp add: ws_Read_def)

lemma ws_Read_length:
  "ws_Read msg r = (msg', n, e) \<Longrightarrow> length msg' = length msg \<and> n \<le> length msg"
  by (auto simp: ws_Read_def Let_def)

lemma listen_Nil: "listen x hdl msg w [] = (Reading, w)"
  by (simp add: listen.simps)

text \<open>A read that fills the buffer, or returns an error, is logged and read over.\<close>

lemma listen_skip:
  assumes "ws_Read msg r = (msg', n, e)" and "n = 4096 \<or> e \<noteq> None"
  shows "listen x hdl msg w (r # rs) =
         listen x hdl msg'
           (if n = 0 then emit (Sleep 1) (emit (Log [LStr ''rtm.start ######### ws timeout'']) w)
            else emit (Log [LStr ''rtm.start reading event'', LInt (int n)]) w)
           rs"
proof -
  let ?w = "if n = 0 then emit (Sleep 1) (emit (Log [LStr ''rtm.start ######### ws timeout'']) w)
            else emit (Log [LStr ''rtm.start reading event'', LInt (int n)]) w"
  from assms have "drain msg w (r # rs) = drain msg' ?w rs"
    by auto
  then show ?thesis
    by (simp add: listen.simps [of x hdl msg w "r # rs"] listen.simps [of x hdl msg' ?w rs])
qed

text \<open>A shorter read without an error ends the frame: decode and dispatch.\<close>

lemma listen_frame:
  assumes "ws_Read msg r = (msg', n, None)" and "n \<noteq> 4096"
  shows "listen x hdl msg w (r # rs) =
         (case json_Unmarshal x (take n msg') of
            Inl err \<Rightarrow>
              listen x hdl msg'
                (emit (Log [LStr ''rtm.start ###### error parsing event'', LStr (take n msg'), LErr err])
                   (emit (WatchdogReset 25) w))
                rs
          | Inr event \<Rightarrow>
              (case hdl of
                 None \<Rightarrow>
                   (Panicked NilPointerDereference,
                    emit (Log [LStr ''rtm.start handling event'', LStr (take n msg')])
                      (emit (WatchdogReset 25) w))
               | Some h \<Rightarrow>
                   (case h event (emit (Log [LStr ''rtm.start handling event'', LStr (take n msg')])
                                    (emit (WatchdogReset 25) w)) of
                      (Some p, w4) \<Rightarrow> (Panicked p, w4)
                    | (None, w4) \<Rightarrow> listen x hdl msg' w4 rs)))"
proof -
  from assms have "drain msg w (r # rs) = Inr (msg', n, w, rs)"
    by simp
  then show ?thesis
    by (simp add: listen.simps [of x hdl msg w "r # rs"] Let_def split: sum.splits)
qed

lemma listen_decode_error:
  assumes "length msg = 4096" and "length frame < 4096" and "json_Unmarshal x frame = Inl err"
  shows "listen x hdl msg w ((frame, None) # rs) =
         listen x hdl (frame @ drop (length frame) msg)
           (emit (Log [LStr ''rtm.start ###### error parsing event'', LStr frame, LErr err])
              (emit (WatchdogReset 25) w))
           rs"
proof -
  from assms have rd: "ws_Read msg (frame, None) = (frame @ drop (length frame) msg, length frame, None)"
    by (simp add: ws_Read_fits)
  from assms have ne: "length frame \<noteq> 4096"
    by simp
  show ?thesis
    by (simp add: listen_frame [OF rd ne] assms(3))
qed

lemma listen_dispatch:
  assumes "length msg = 4096" and "length frame < 4096" and "json_Unmarshal x frame = Inr event"
  shows "listen x (Some h) msg w ((frame, None) # rs) =
         (case h event (emit (Log [LStr ''rtm.start handling event'', LStr frame])
                          (emit (WatchdogReset 25) w)) of
            (Some p, w') \<Rightarrow> (Panicked p, w')
          | (None, w') \<Rightarrow> listen x (Some h) (frame @ drop (length frame) msg) w' rs)"
proof -
  from assms have rd: "ws_Read msg (frame, None) = (frame @ drop (length frame) msg, length frame, None)"
    by (simp add: ws_Read_fits)
  from assms have ne: "length frame \<noteq> 4096"
    by simp
  show ?thesis
    by (simp add: listen_frame [OF rd ne] assms(3))
qed

lemma listen_empty_error_read:
  "listen x hdl msg w (([], Some e) # rs) =
   listen x hdl msg (emit (Sleep 1) (emit (Log [LStr ''rtm.start ######### ws timeout'']) w)) rs"
proof -
  have "ws_Read msg ([], Some e) = (msg, 0, Some e)"
    by (simp add: ws_Read_def)
  from listen_skip [OF this] show ?thesis
    by simp
qed

text \<open>
  A read that fills the buffer is only logged: the next read overwrites the buffer from its
  start, so the bytes are gone when the frame is decoded.
\<close>

lemma listen_full_chunk:
  assumes "length msg = 4096" and "length chunk = 4096"
  shows "listen x hdl msg w ((chunk, e) # rs) =
         listen x hdl chunk (emit (Log [LStr ''rtm.start reading event'', LInt 4096]) w) rs"
proof -
  from assms have "ws_Read msg (chunk, e) = (chunk, 4096, e)"
    by (simp add: ws_Read_def)
  from listen_skip [OF this] show ?thesis
    by simp
qed

text \<open>The loop has no \<^verbatim>\<open>return\<close> and no \<^verbatim>\<open>break\<close>: no script makes it return an error.\<close>

lemma listen_never_returns: "fst (listen x hdl msg w rs) \<noteq> Returned e"
proof (induction x hdl msg w rs rule: listen.induct)
  case (1 x hdl msg w rs)
  show ?case
    using "1.IH"
    by (subst listen.simps) (auto simp: Let_def split: sum.splits option.splits prod.splits)
qed

lemma listen_neq_Returned: "listen x hdl msg w rs \<noteq> (Returned e, w')"
  using listen_never_returns [of x hdl msg w rs e] by auto

lemma DialAndListen_Returned_before_loop:
  assumes "fst (DialAndListen x token hdl w rs) = Returned e"
  shows "fst (DialAndListen x token hdl w []) = Returned e"
  using assms
  by (auto simp: DialAndListen_def Let_def listen_Nil listen_neq_Returned
           split: sum.splits prod.splits exit.splits if_splits)

section \<open>Facts about the concrete inputs\<close>

lemma length_hello_frame: "length hello_frame = 16"
  by (simp add: hello_frame_def quoted_def)

lemma length_ack_frame: "length ack_frame = 11"
  by (simp add: ack_frame_def quoted_def)

lemma length_big_frame: "length big_frame = 5000"
  by (simp add: big_frame_def quoted_def)

lemma example_Unmarshal_hello: "example_Unmarshal hello_frame = Inr hello_event"
  by (simp add: example_Unmarshal_def)

lemma example_Unmarshal_ack: "example_Unmarshal ack_frame = Inr ack_event"
  using length_hello_frame length_ack_frame by (auto simp: example_Unmarshal_def)

lemma example_Unmarshal_other:
  "length b \<notin> {16, 11, 5000} \<Longrightarrow> example_Unmarshal b = Inl (Error ''invalid character'')"
  using length_hello_frame length_ack_frame length_big_frame
  by (auto simp: example_Unmarshal_def)

lemma example_ext_simps:
  "json_Unmarshal example_ext = example_Unmarshal"
  "json_Marshal example_ext = example_Marshal"
  "ws_Write example_ext so_far data = (int (length data), None)"
  by (simp_all add: example_ext_def)

lemma example_ext_bootstrap:
  "json_Unmarshal_StartResponse example_ext = example_StartResponse"
  "http_Get example_ext url =
     (if url = ''https://slack.com/api/rtm.start?token=bad'' then Inr rejected_body else Inr accepted_body)"
  "os_Getenv example_ext ''BITBOT_ORIGIN'' = ''http://localhost''"
  "websocket_Dial example_ext url protocol ''http://localhost'' = Inr (Conn url ''http://localhost'')"
  by (simp_all add: example_ext_def)

lemma length_rejected_body: "length rejected_body = 35"
  by (simp add: rejected_body_def quoted_def)

lemma example_StartResponse_rejected:
  "example_StartResponse rejected_body = Inr \<lparr>Ok = False, Error_text = ''invalid_auth'', URL = []\<rparr>"
  by (simp add: example_StartResponse_def)

lemma example_StartResponse_accepted:
  "example_StartResponse accepted_body = Inr \<lparr>Ok = True, Error_text = [], URL = ''wss://example/ws''\<rparr>"
  by (simp add: example_StartResponse_def accepted_body_def rejected_body_def quoted_def)

lemma length_zero_buffer: "length zero_buffer = 4096"
  by (simp add: zero_buffer_def)

lemma greeter_message:
  "example_Marshal [''type'' \<mapsto> VString ''message'', ''channel'' \<mapsto> VString ''C123'',
                    ''text'' \<mapsto> VString ''ready'', ''id'' \<mapsto> VInt64 0]
   = Inr (''{'' @ quoted ''channel'' @ '':'' @ quoted ''C123'' @ '','' @ quoted ''id'' @ '':0,''
            @ quoted ''text'' @ '':'' @ quoted ''ready'' @ '','' @ quoted ''type'' @ '':''
            @ quoted ''message'' @ ''}'')"
  by (simp add: example_Marshal_def example_field_def quoted_def)

lemma example_dispatch_greeter:
  assumes "length msg = 4096"
  shows "listen example_ext (Some (HandleEvent example_call)) msg
           \<lparr>client = \<lparr>ws = Some c, sendID = 0\<rparr>,
            router = Handle NewServeMux ''hello'' (Some ''greeter''), trace = tr\<rparr>
           [(hello_frame, None)]
         = (Reading,
            \<lparr>client = \<lparr>ws = Some c, sendID = 1\<rparr>,
             router = Handle NewServeMux ''hello'' (Some ''greeter''),
             trace = tr @
               [WatchdogReset 25,
                Log [LStr ''rtm.start handling event'', LStr hello_frame],
                Log [LStr ''rtm.start write %v'',
                     LMap [''type'' \<mapsto> VString ''message'', ''channel'' \<mapsto> VString ''C123'',
                           ''text'' \<mapsto> VString ''ready'', ''id'' \<mapsto> VInt64 0]],
                WsWrite (''{'' @ quoted ''channel'' @ '':'' @ quoted ''C123'' @ '','' @ quoted ''id''
                           @ '':0,'' @ quoted ''text'' @ '':'' @ quoted ''ready'' @ '',''
                           @ quoted ''type'' @ '':'' @ quoted ''message'' @ ''}'')]\<rparr>)"
proof -
  have d: "length hello_frame < 4096" by (simp add: length_hello_frame)
  have e: "json_Unmarshal example_ext hello_frame = Inr hello_event"
    by (simp add: example_ext_simps example_Unmarshal_hello)
  show ?thesis
    by (simp add: listen_dispatch [OF assms d e] listen_Nil HandleEvent_def Handler_def
        hello_event_def Handle_def example_call_def WriteMsg_def Write_def emit_def Let_def
        example_ext_simps(2,3) greeter_message)
qed

section \<open>Properties of the mux\<close>

lemma Handle_all_append:
  "Handle_all mux (regs @ regs') = Handle_all (Handle_all mux regs) regs'"
  by (simp add: Handle_all_def)

lemma Handle_all_Cons:
  "Handle_all mux ((p, h) # regs) = Handle_all (Handle mux p h) regs"
  by (simp add: Handle_all_def)

lemma Handle_all_other:
  "p \<notin> fst ` set regs \<Longrightarrow> Handle_all mux regs p = mux p"
proof (induction regs arbitrary: mux)
  case Nil
  then show ?case by (simp add: Handle_all_def)
next
  case (Cons reg regs)
  obtain q h where reg: "reg = (q, h)" by (cases reg)
  from Cons.prems reg have neq: "q \<noteq> p" and rest: "p \<notin> fst ` set regs" by auto
  from rest have "Handle_all (Handle mux q h) regs p = Handle mux q h p"
    by (rule Cons.IH)
  with neq show ?case
    by (simp add: reg Handle_all_Cons Handle_def)
qed

lemma Handle_all_latest:
  "p \<notin> fst ` set later \<Longrightarrow>
   Handle_all mux (earlier @ (p, h) # later) p = Some \<lparr>handler = h, pattern = p\<rparr>"
  by (simp add: Handle_all_append Handle_all_Cons Handle_all_other Handle_def)

text \<open>
  C4. After any sequence of \<^verbatim>\<open>Handle\<close> calls, an event whose \<^verbatim>\<open>"type"\<close> is a pattern \<open>p\<close>
  resolves to the handler of the last call for \<open>p\<close> (the call \<open>(p, h)\<close> with no call for
  \<open>p\<close> after it), together with \<open>p\<close>; and \<^verbatim>\<open>HandleEvent\<close> is one call of that handler and
  nothing else (no call at all when the handler registered last is the nil interface).
\<close>

theorem Handler_latest_registration:
  assumes "event = VMap obj" and "obj ''type'' = Some (VString p)"
    and "p \<notin> fst ` set later"
    and "router w = Handle_all mux (earlier @ (p, h) # later)"
  shows "Handler (router w) event = Inr (h, p) \<and>
         HandleEvent call event w = (case h of None \<Rightarrow> (None, w) | Some f \<Rightarrow> call f event w)"
  using assms by (cases h) (simp_all add: Handler_def HandleEvent_def Handle_all_latest)

theorem Handler_latest_registration_witness:
  "Handler (Handle_all NewServeMux
       [(''hello'', Some ''faulty''), (''hello'', Some ''greeter''), (''message'', Some ''other'')])
     hello_event = Inr (Some ''greeter'', ''hello'') \<and>
   HandleEvent example_call hello_event
     (example_world (Handle_all NewServeMux
       [(''hello'', Some ''faulty''), (''hello'', Some ''greeter''), (''message'', Some ''other'')]))
   = example_call ''greeter'' hello_event
       (example_world (Handle_all NewServeMux
         [(''hello'', Some ''faulty''), (''hello'', Some ''greeter''), (''message'', Some ''other'')]))"
  using Handler_latest_registration
    [of hello_event "[''type'' \<mapsto> VString ''hello'']" "''hello''"
        "[(''message'', Some ''other'')]"
        "example_world (Handle_all NewServeMux
          [(''hello'', Some ''faulty''), (''hello'', Some ''greeter''), (''message'', Some ''other'')])"
        NewServeMux "[(''hello'', Some ''faulty'')]" "Some ''greeter''" example_call]
  by (simp add: hello_event_def example_world_def)

text \<open>
  C7. An event with a string \<^verbatim>\<open>"type"\<close> for which nothing is registered: \<^verbatim>\<open>Handler\<close> returns
  the nil handler and the empty pattern, and \<^verbatim>\<open>HandleEvent\<close> returns without a panic and
  leaves the whole state as it was (the table, the client and the effects), whatever the
  handlers would do if called.
\<close>

theorem HandleEvent_routing_miss:
  assumes "event = VMap obj" and "obj ''type'' = Some (VString p)" and "router w p = None"
  shows "Handler (router w) event = Inr (None, []) \<and> HandleEvent call event w = (None, w)"
  using assms by (simp add: Handler_def HandleEvent_def)

theorem HandleEvent_routing_miss_witness:
  "Handler (Handle NewServeMux ''message'' (Some ''faulty'')) hello_event = Inr (None, []) \<and>
   HandleEvent example_call hello_event (example_world (Handle NewServeMux ''message'' (Some ''faulty'')))
     = (None, example_world (Handle NewServeMux ''message'' (Some ''faulty'')))"
  using HandleEvent_routing_miss
    [of hello_event "[''type'' \<mapsto> VString ''hello'']" "''hello''"
        "example_world (Handle NewServeMux ''message'' (Some ''faulty''))" example_call]
  by (simp add: hello_event_def example_world_def Handle_def NewServeMux_def)

lemma eventType_Inr_iff:
  "(\<exists>s. eventType event = Inr s) = (\<exists>obj s. event = VMap obj \<and> obj ''type'' = Some (VString s))"
proof (cases event)
  case (VMap obj)
  show ?thesis
  proof (cases "obj ''type''")
    case None
    with VMap show ?thesis by simp
  next
    case (Some v)
    with VMap show ?thesis by (cases v) auto
  qed
qed simp_all

lemma eventType_Inl: "eventType event = Inl p \<Longrightarrow> p = InterfaceConversion"
  by (cases event) (auto split: option.splits val.splits)

lemma eventType_untyped:
  assumes "\<not> (\<exists>obj s. event = VMap obj \<and> obj ''type'' = Some (VString s))"
  shows "eventType event = Inl InterfaceConversion"
proof (cases "eventType event")
  case (Inl p)
  then show ?thesis by (simp add: eventType_Inl)
next
  case (Inr s)
  then have "\<exists>s. eventType event = Inr s" by blast
  with assms eventType_Inr_iff [of event] show ?thesis by blast
qed

text \<open>
  C10. \<^verbatim>\<open>ServeMux.Handler\<close> panics on the type assertion exactly for the events that are not
  a string-keyed map with a string under \<^verbatim>\<open>"type"\<close>, whatever is registered. For such an event
  \<^verbatim>\<open>HandleEvent\<close> panics as well, before any handler is called, and when the mux is the handler
  of the listen loop a frame that decodes to such an event ends the loop with the panic.
\<close>

theorem Handler_unchecked_type_assertion:
  "(Handler mux event = Inl InterfaceConversion)
     = (\<not> (\<exists>obj s. event = VMap obj \<and> obj ''type'' = Some (VString s)))
   \<and> (\<not> (\<exists>obj s. event = VMap obj \<and> obj ''type'' = Some (VString s)) \<longrightarrow>
        HandleEvent call event w = (Some InterfaceConversion, w)
        \<and> (length msg = 4096 \<and> length frame < 4096 \<and> json_Unmarshal x frame = Inr event \<longrightarrow>
             listen x (Some (HandleEvent call)) msg w ((frame, None) # rs)
               = (Panicked InterfaceConversion,
                  emit (Log [LStr ''rtm.start handling event'', LStr frame])
                    (emit (WatchdogReset 25) w))))"
proof (intro conjI impI)
  show "(Handler mux event = Inl InterfaceConversion)
          = (\<not> (\<exists>obj s. event = VMap obj \<and> obj ''type'' = Some (VString s)))"
  proof (cases "\<exists>obj s. event = VMap obj \<and> obj ''type'' = Some (VString s)")
    case True
    then obtain s where "eventType event = Inr s"
      using eventType_Inr_iff [of event] by blast
    with True show ?thesis
      by (simp add: Handler_def split: option.splits)
  next
    case False
    then show ?thesis
      by (simp add: Handler_def eventType_untyped)
  qed
next
  assume untyped: "\<not> (\<exists>obj s. event = VMap obj \<and> obj ''type'' = Some (VString s))"
  then show "HandleEvent call event w = (Some InterfaceConversion, w)"
    by (simp add: HandleEvent_def Handler_def eventType_untyped)
next
  assume untyped: "\<not> (\<exists>obj s. event = VMap obj \<and> obj ''type'' = Some (VString s))"
    and fr: "length msg = 4096 \<and> length frame < 4096 \<and> json_Unmarshal x frame = Inr event"
  from untyped have "HandleEvent call event (emit (Log [LStr ''rtm.start handling event'', LStr frame])
                       (emit (WatchdogReset 25) w))
      = (Some InterfaceConversion, emit (Log [LStr ''rtm.start handling event'', LStr frame])
                       (emit (WatchdogReset 25) w))"
    by (simp add: HandleEvent_def Handler_def eventType_untyped)
  with fr show "listen x (Some (HandleEvent call)) msg w ((frame, None) # rs)
               = (Panicked InterfaceConversion,
                  emit (Log [LStr ''rtm.start handling event'', LStr frame])
                    (emit (WatchdogReset 25) w))"
    by (simp add: listen_dispatch)
qed

theorem Handler_unchecked_type_assertion_witness:
  "Handler (Handle NewServeMux ''hello'' (Some ''greeter'')) ack_event = Inl InterfaceConversion
   \<and> Handler (Handle NewServeMux ''hello'' (Some ''greeter'')) (VSlice []) = Inl InterfaceConversion
   \<and> Handler (Handle NewServeMux ''hello'' (Some ''greeter'')) (VMap [''type'' \<mapsto> VInt64 7])
       = Inl InterfaceConversion
   \<and> Handler (Handle NewServeMux ''hello'' (Some ''greeter'')) hello_event \<noteq> Inl InterfaceConversion
   \<and> listen example_ext (Some (HandleEvent example_call)) zero_buffer
        (example_world (Handle NewServeMux ''hello'' (Some ''greeter'')))
        [(ack_frame, None), (hello_frame, None)]
      = (Panicked InterfaceConversion,
         \<lparr>client = \<lparr>ws = Some (Conn ''wss://example/ws'' ''http://localhost''), sendID = 0\<rparr>,
          router = Handle NewServeMux ''hello'' (Some ''greeter''),
          trace = [WatchdogReset 25, Log [LStr ''rtm.start handling event'', LStr ack_frame]]\<rparr>)"
proof -
  let ?mux = "Handle NewServeMux ''hello'' (Some ''greeter'') :: string ServeMux"
  have ack: "\<not> (\<exists>obj s. ack_event = VMap obj \<and> obj ''type'' = Some (VString s))"
    by (auto simp: ack_event_def)
  have slice: "\<not> (\<exists>obj s. VSlice [] = VMap obj \<and> obj ''type'' = Some (VString s))"
    by simp
  have num: "\<not> (\<exists>obj s. VMap [''type'' \<mapsto> VInt64 7] = VMap obj \<and> obj ''type'' = Some (VString s))"
    by auto
  have hello: "\<exists>obj s. hello_event = VMap obj \<and> obj ''type'' = Some (VString s)"
    by (simp add: hello_event_def)
  have fr: "length zero_buffer = 4096 \<and> length ack_frame < 4096
            \<and> json_Unmarshal example_ext ack_frame = Inr ack_event"
    by (simp add: length_zero_buffer length_ack_frame example_ext_simps example_Unmarshal_ack)
  note inst = Handler_unchecked_type_assertion
  show ?thesis
    using inst [of ?mux ack_event, THEN conjunct1] ack
      inst [of ?mux "VSlice []", THEN conjunct1] slice
      inst [of ?mux "VMap [''type'' \<mapsto> VInt64 7]", THEN conjunct1] num
      inst [of ?mux hello_event, THEN conjunct1] hello
      inst [of ?mux ack_event example_call "example_world ?mux" zero_buffer ack_frame example_ext
              "[(hello_frame, None)]", THEN conjunct2, rule_format, OF ack,
           THEN conjunct2, rule_format, OF fr]
    by (simp add: example_world_def emit_def)
qed

section \<open>Outbound ids\<close>

lemma sint_add_nat:
  fixes s :: "64 word"
  assumes "sint s + int k < 2 ^ 63"
  shows "sint (s + of_nat k) = sint s + int k"
proof -
  have "s + of_nat k = word_of_int (sint s + int k)"
    by simp
  then have "sint (s + of_nat k) = signed_take_bit 63 (sint s + int k)"
    by (simp only: sint_sbintrunc') simp
  moreover have "- (2 ^ 63) \<le> sint s + int k"
    using sint_ge [of s] by simp
  ultimately show ?thesis
    using assms by (simp add: signed_take_bit_int_eq_self)
qed

lemma Write_Some:
  "Write x (Some m0) w = (r, m1, w') \<Longrightarrow>
   m1 = Some (m0(''id'' \<mapsto> VInt64 (sendID (client w)))) \<and>
   sendID (client w') = sendID (client w) + 1"
  by (auto simp: Write_def Let_def emit_def split: sum.splits option.splits)

lemma Write_ids_eq:
  "Write_ids x ms w = map (\<lambda>k. Some (VInt64 (sendID (client w) + of_nat k))) [0..<length ms]"
proof (induction ms arbitrary: w)
  case Nil
  show ?case by simp
next
  case (Cons m0 ms)
  obtain r m1 w' where wr: "Write x (Some m0) w = (r, m1, w')"
    by (cases "Write x (Some m0) w")
  from Write_Some [OF wr]
  have m1: "m1 = Some (m0(''id'' \<mapsto> VInt64 (sendID (client w))))"
    and next_id: "sendID (client w') = sendID (client w) + 1"
    by simp_all
  have "Write_ids x (m0 # ms) w = Some (VInt64 (sendID (client w))) # Write_ids x ms w'"
    by (simp add: wr m1)
  also have "Write_ids x ms w' = map (\<lambda>k. Some (VInt64 (sendID (client w) + 1 + of_nat k))) [0..<length ms]"
    by (simp add: Cons.IH next_id)
  also have "Some (VInt64 (sendID (client w))) # \<dots>
             = map (\<lambda>k. Some (VInt64 (sendID (client w) + of_nat k))) [0..<length (m0 # ms)]"
    by (simp add: map_upt_Suc add.assoc del: upt_Suc)
  finally show ?case .
qed

text \<open>
  C5, as the code has it. The \<open>k\<close>-th of any number of successive \<^verbatim>\<open>Write\<close> calls (counting
  from 0) puts the counter's starting value plus \<open>k\<close>, in \<^verbatim>\<open>int64\<close> arithmetic, under
  \<^verbatim>\<open>"id"\<close>. As long as the counter stays below \<open>2 ^ 63\<close> these are the integers that follow the
  starting value one by one, so on a fresh \<^verbatim>\<open>Client{}\<close>, whose counter is 0, the first
  \<open>2 ^ 63\<close> ids are 0, 1, 2, ... in order. \<^verbatim>\<open>WriteMsg\<close> is \<^verbatim>\<open>Write\<close> on the map of the three
  fields.
\<close>

theorem Write_ids_consecutive:
  "Write_ids x ms w = map (\<lambda>k. Some (VInt64 (sendID (client w) + of_nat k))) [0..<length ms]
   \<and> (sint (sendID (client w)) + int (length ms) \<le> 2 ^ 63 \<longrightarrow>
        (\<forall>k < length ms. sint (sendID (client w) + of_nat k) = sint (sendID (client w)) + int k))
   \<and> sendID Client_zero = 0
   \<and> WriteMsg x channel msgtext w =
        Write x (Some [''type'' \<mapsto> VString ''message'', ''channel'' \<mapsto> VString channel,
                       ''text'' \<mapsto> VString msgtext]) w"
proof (intro conjI impI allI)
  show "Write_ids x ms w = map (\<lambda>k. Some (VInt64 (sendID (client w) + of_nat k))) [0..<length ms]"
    by (rule Write_ids_eq)
next
  fix k
  assume "sint (sendID (client w)) + int (length ms) \<le> 2 ^ 63" and "k < length ms"
  then have "sint (sendID (client w)) + int k < 2 ^ 63"
    by simp
  then show "sint (sendID (client w) + of_nat k) = sint (sendID (client w)) + int k"
    by (rule sint_add_nat)
next
  show "sendID Client_zero = 0"
    by (simp add: Client_zero_def)
next
  show "WriteMsg x channel msgtext w =
        Write x (Some [''type'' \<mapsto> VString ''message'', ''channel'' \<mapsto> VString channel,
                       ''text'' \<mapsto> VString msgtext]) w"
    by (simp add: WriteMsg_def)
qed

theorem Write_ids_consecutive_witness:
  "Write_ids example_ext
     [[''type'' \<mapsto> VString ''ping''], [''type'' \<mapsto> VString ''ping''], [''type'' \<mapsto> VString ''ping'']]
     (example_world NewServeMux)
   = [Some (VInt64 0), Some (VInt64 1), Some (VInt64 2)]
   \<and> sint (sendID (client (example_world NewServeMux))) + int (length [0, 1, 2 :: nat]) \<le> 2 ^ 63
   \<and> sint (sendID (client (example_world NewServeMux)) + of_nat 2) = 2
   \<and> fst (snd (WriteMsg example_ext ''C123'' ''ready'' (example_world NewServeMux)))
       = Some [''type'' \<mapsto> VString ''message'', ''channel'' \<mapsto> VString ''C123'',
               ''text'' \<mapsto> VString ''ready'', ''id'' \<mapsto> VInt64 0]"
proof -
  let ?ping = "[''type'' \<mapsto> VString ''ping'']"
  let ?w = "example_world NewServeMux :: string world"
  note inst = Write_ids_consecutive [of example_ext "[?ping, ?ping, ?ping]" ?w "''C123''" "''ready''"]
  have bound: "sint (sendID (client ?w)) + int (length [?ping, ?ping, ?ping]) \<le> 2 ^ 63"
    by (simp add: example_world_def)
  have "Write_ids example_ext [?ping, ?ping, ?ping] ?w
        = [Some (VInt64 0), Some (VInt64 1), Some (VInt64 2)]"
    using inst [THEN conjunct1] by (simp add: example_world_def upt_rec)
  moreover have "sint (sendID (client ?w)) + int (length [0, 1, 2 :: nat]) \<le> 2 ^ 63"
    using bound by simp
  moreover have "sint (sendID (client ?w) + of_nat 2) = 2"
    using inst [THEN conjunct2, THEN conjunct1, rule_format, OF bound, of 2]
    by (simp add: example_world_def)
  moreover have "fst (snd (WriteMsg example_ext ''C123'' ''ready'' ?w))
       = Some [''type'' \<mapsto> VString ''message'', ''channel'' \<mapsto> VString ''C123'',
               ''text'' \<mapsto> VString ''ready'', ''id'' \<mapsto> VInt64 0]"
    using inst [THEN conjunct2, THEN conjunct2, THEN conjunct2]
    by (simp add: Write_def Let_def example_world_def split: sum.splits)
  ultimately show ?thesis
    by (intro conjI)
qed

text \<open>
  C5 as stated fails at the end of the \<^verbatim>\<open>int64\<close> range: of \<open>2 ^ 63 + 1\<close> successive \<^verbatim>\<open>Write\<close>
  calls on a client whose counter starts at 0, the call number \<open>2 ^ 63 - 1\<close> assigns
  9223372036854775807 and the next one assigns -9223372036854775808.
\<close>

theorem Write_ids_wrap_counterexample:
  "sendID (client (example_world NewServeMux)) = 0
   \<and> Write_ids example_ext (replicate (2 ^ 63 + 1) [''type'' \<mapsto> VString ''ping''])
        (example_world NewServeMux) ! (2 ^ 63 - 1)
      = Some (VInt64 0x7FFFFFFFFFFFFFFF)
   \<and> Write_ids example_ext (replicate (2 ^ 63 + 1) [''type'' \<mapsto> VString ''ping''])
        (example_world NewServeMux) ! (2 ^ 63)
      = Some (VInt64 0x8000000000000000)
   \<and> sint (0x7FFFFFFFFFFFFFFF :: 64 word) = 9223372036854775807
   \<and> sint (0x8000000000000000 :: 64 word) = - 9223372036854775808
   \<and> sint (0x8000000000000000 :: 64 word) < sint (0x7FFFFFFFFFFFFFFF :: 64 word)"
proof -
  have start: "sendID (client (example_world NewServeMux :: string world)) = 0"
    by (simp add: example_world_def)
  have nth: "k < 2 ^ 63 + 1 \<Longrightarrow>
      Write_ids example_ext (replicate (2 ^ 63 + 1) [''type'' \<mapsto> VString ''ping''])
        (example_world NewServeMux :: string world) ! k = Some (VInt64 (of_nat k))" for k
    by (simp add: Write_ids_eq start del: upt_Suc)
  have a: "Write_ids example_ext (replicate (2 ^ 63 + 1) [''type'' \<mapsto> VString ''ping''])
        (example_world NewServeMux :: string world) ! (2 ^ 63 - 1) = Some (VInt64 0x7FFFFFFFFFFFFFFF)"
    by (subst nth) simp_all
  have b: "Write_ids example_ext (replicate (2 ^ 63 + 1) [''type'' \<mapsto> VString ''ping''])
        (example_world NewServeMux :: string world) ! (2 ^ 63) = Some (VInt64 0x8000000000000000)"
    by (subst nth) simp_all
  have c: "sint (0x7FFFFFFFFFFFFFFF :: 64 word) = 9223372036854775807"
    by simp
  have d: "sint (0x8000000000000000 :: 64 word) = - 9223372036854775808"
    by simp
  have e: "sint (0x8000000000000000 :: 64 word) < sint (0x7FFFFFFFFFFFFFFF :: 64 word)"
    by simp
  from start a b c d e show ?thesis
    by (intro conjI)
qed

section \<open>The handshake\<close>

text \<open>
  C9. When the response of \<^verbatim>\<open>rtm.start\<close> decodes and its \<^verbatim>\<open>ok\<close> is false, \<^verbatim>\<open>DialAndListen\<close>
  returns the error \<^verbatim>\<open>RTM API was not OK to start stream: \<close> followed by the error string of
  the response. What it has done by then is the request, four log lines and the closing of
  the response body: no dial, no read of the script, no call of the handler, and the client
  is as it was.
\<close>

theorem DialAndListen_handshake_rejected:
  assumes "http_Get x (''https://slack.com/api/rtm.start?token='' @ token) = Inr body"
    and "json_Unmarshal_StartResponse x body = Inr r"
    and "\<not> Ok r"
  shows "DialAndListen x token hdl w rs =
           (Returned (Error (''RTM API was not OK to start stream: '' @ Error_text r)),
            w\<lparr>trace := trace w @
               [Log [LStr ''rtm.start''],
                HttpGet (''https://slack.com/api/rtm.start?token='' @ token),
                Log [LStr ''rtm.started''],
                Log [LStr ''rtm.start body'', LInt (int (length body))],
                Log [LStr ''rtm.start body parsed'', LBool False, LStr (Error_text r), LStr (URL r)],
                BodyClose]\<rparr>)
         \<and> client (snd (DialAndListen x token hdl w rs)) = client w"
  using assms by (simp add: DialAndListen_def Let_def emit_def)

theorem DialAndListen_handshake_rejected_witness:
  "DialAndListen example_ext ''bad'' (Some (HandleEvent example_call))
     (example_world (Handle NewServeMux ''hello'' (Some ''greeter''))) [(hello_frame, None)]
   = (Returned (Error ''RTM API was not OK to start stream: invalid_auth''),
      \<lparr>client = \<lparr>ws = Some (Conn ''wss://example/ws'' ''http://localhost''), sendID = 0\<rparr>,
       router = Handle NewServeMux ''hello'' (Some ''greeter''),
       trace =
         [Log [LStr ''rtm.start''],
          HttpGet ''https://slack.com/api/rtm.start?token=bad'',
          Log [LStr ''rtm.started''],
          Log [LStr ''rtm.start body'', LInt 35],
          Log [LStr ''rtm.start body parsed'', LBool False, LStr ''invalid_auth'', LStr []],
          BodyClose]\<rparr>)"
proof -
  have get: "http_Get example_ext (''https://slack.com/api/rtm.start?token='' @ ''bad'') = Inr rejected_body"
    by (simp add: example_ext_bootstrap)
  have dec: "json_Unmarshal_StartResponse example_ext rejected_body
             = Inr \<lparr>Ok = False, Error_text = ''invalid_auth'', URL = []\<rparr>"
    by (simp add: example_ext_bootstrap example_StartResponse_rejected)
  have no: "\<not> Ok \<lparr>Ok = False, Error_text = ''invalid_auth'', URL = []\<rparr>"
    by simp
  from DialAndListen_handshake_rejected
         [OF get dec no, of "Some (HandleEvent example_call)"
            "example_world (Handle NewServeMux ''hello'' (Some ''greeter''))" "[(hello_frame, None)]",
          THEN conjunct1]
  show ?thesis
    by (simp add: example_world_def length_rejected_body)
qed

section \<open>Frames that do not decode\<close>




section \<open>Read errors\<close>

text \<open>
  C2, as the code has it. A read that returns an error does not end the loop: whatever it
  read is left in the buffer and never decoded, the loop logs (and sleeps one second when
  no byte was read) and reads again. No script makes the loop return an error, so an error
  that \<^verbatim>\<open>DialAndListen\<close> returns is one of the handshake or the dial: it is returned before the
  first read.
\<close>

theorem listen_retries_after_read_error:
  "listen x hdl msg w ((data, Some e) # rs) =
     (case ws_Read msg (data, Some e) of
        (msg', n, _) \<Rightarrow>
          listen x hdl msg'
            (if n = 0 then emit (Sleep 1) (emit (Log [LStr ''rtm.start ######### ws timeout'']) w)
             else emit (Log [LStr ''rtm.start reading event'', LInt (int n)]) w)
            rs)
   \<and> fst (listen x hdl msg w rs) \<noteq> Returned e'
   \<and> (fst (DialAndListen x token hdl w rs) = Returned e' \<longrightarrow>
        fst (DialAndListen x token hdl w []) = Returned e')"
proof (intro conjI impI)
  obtain msg' n e0 where rd: "ws_Read msg (data, Some e) = (msg', n, e0)"
    by (cases "ws_Read msg (data, Some e)")
  then have "e0 = Some e"
    by (auto simp: ws_Read_def Let_def)
  then have "n = 4096 \<or> e0 \<noteq> None"
    by simp
  note step = listen_skip [OF rd this, of x hdl w rs]
  show "listen x hdl msg w ((data, Some e) # rs) =
     (case ws_Read msg (data, Some e) of
        (msg', n, _) \<Rightarrow>
          listen x hdl msg'
            (if n = 0 then emit (Sleep 1) (emit (Log [LStr ''rtm.start ######### ws timeout'']) w)
             else emit (Log [LStr ''rtm.start reading event'', LInt (int n)]) w)
            rs)"
    by (simp only: rd prod.case step)
next
  show "fst (listen x hdl msg w rs) \<noteq> Returned e'"
    by (rule listen_never_returns)
next
  assume "fst (DialAndListen x token hdl w rs) = Returned e'"
  then show "fst (DialAndListen x token hdl w []) = Returned e'"
    by (rule DialAndListen_Returned_before_loop)
qed

theorem listen_retries_after_read_error_witness:
  "fst (DialAndListen example_ext ''bad'' (Some (HandleEvent example_call))
          (example_world (Handle NewServeMux ''hello'' (Some ''greeter'')))
          [([], Some (Error ''EOF''))])
     = Returned (Error ''RTM API was not OK to start stream: invalid_auth'')
   \<and> fst (DialAndListen example_ext ''bad'' (Some (HandleEvent example_call))
          (example_world (Handle NewServeMux ''hello'' (Some ''greeter''))) [])
     = Returned (Error ''RTM API was not OK to start stream: invalid_auth'')"
proof -
  have "fst (DialAndListen example_ext ''bad'' (Some (HandleEvent example_call))
          (example_world (Handle NewServeMux ''hello'' (Some ''greeter'')))
          [([], Some (Error ''EOF''))])
     = Returned (Error ''RTM API was not OK to start stream: invalid_auth'')"
    by (simp add: DialAndListen_def example_ext_bootstrap example_StartResponse_rejected Let_def)
  moreover from this
  have "fst (DialAndListen example_ext ''bad'' (Some (HandleEvent example_call))
          (example_world (Handle NewServeMux ''hello'' (Some ''greeter''))) [])
     = Returned (Error ''RTM API was not OK to start stream: invalid_auth'')"
    by (rule listen_retries_after_read_error
          [of example_ext "Some (HandleEvent example_call)" zero_buffer
              "example_world (Handle NewServeMux ''hello'' (Some ''greeter''))" "[]" "Error ''EOF''"
              "[([], Some (Error ''EOF''))]"
              "Error ''RTM API was not OK to start stream: invalid_auth''" "''bad''",
           THEN conjunct2, THEN conjunct2, rule_format])
  ultimately show ?thesis
    by (rule conjI)
qed

text \<open>
  C2 as stated fails: a client is dialed, its first read returns the error \<^verbatim>\<open>EOF\<close> with no
  bytes, and the second read delivers \<^verbatim>\<open>{"type":"hello"}\<close>. \<^verbatim>\<open>DialAndListen\<close> has not returned
  after the first read (it is in the loop, reading), and after the second the frame has been
  dispatched to the handler registered for \<^verbatim>\<open>hello\<close>, which has written its message.
\<close>

theorem read_error_not_returned_counterexample:
  "fst (DialAndListen example_ext ''token'' (Some (HandleEvent example_call))
          (example_world (Handle NewServeMux ''hello'' (Some ''greeter'')))
          [([], Some (Error ''EOF''))]) = Reading
   \<and> listen example_ext (Some (HandleEvent example_call)) zero_buffer
        (example_world (Handle NewServeMux ''hello'' (Some ''greeter'')))
        [([], Some (Error ''EOF'')), (hello_frame, None)]
      = (Reading,
         \<lparr>client = \<lparr>ws = Some (Conn ''wss://example/ws'' ''http://localhost''), sendID = 1\<rparr>,
          router = Handle NewServeMux ''hello'' (Some ''greeter''),
          trace =
            [Log [LStr ''rtm.start ######### ws timeout''],
             Sleep 1,
             WatchdogReset 25,
             Log [LStr ''rtm.start handling event'', LStr hello_frame],
             Log [LStr ''rtm.start write %v'',
                  LMap [''type'' \<mapsto> VString ''message'', ''channel'' \<mapsto> VString ''C123'',
                        ''text'' \<mapsto> VString ''ready'', ''id'' \<mapsto> VInt64 0]],
             WsWrite (''{'' @ quoted ''channel'' @ '':'' @ quoted ''C123'' @ '','' @ quoted ''id''
                        @ '':0,'' @ quoted ''text'' @ '':'' @ quoted ''ready'' @ '',''
                        @ quoted ''type'' @ '':'' @ quoted ''message'' @ ''}'')]\<rparr>)"
proof (intro conjI)
  show "fst (DialAndListen example_ext ''token'' (Some (HandleEvent example_call))
          (example_world (Handle NewServeMux ''hello'' (Some ''greeter'')))
          [([], Some (Error ''EOF''))]) = Reading"
    by (simp add: DialAndListen_def example_ext_bootstrap example_StartResponse_accepted Let_def
        listen_empty_error_read listen_Nil)
next
  have len: "length zero_buffer = 4096" by (rule length_zero_buffer)
  show "listen example_ext (Some (HandleEvent example_call)) zero_buffer
        (example_world (Handle NewServeMux ''hello'' (Some ''greeter'')))
        [([], Some (Error ''EOF'')), (hello_frame, None)]
      = (Reading,
         \<lparr>client = \<lparr>ws = Some (Conn ''wss://example/ws'' ''http://localhost''), sendID = 1\<rparr>,
          router = Handle NewServeMux ''hello'' (Some ''greeter''),
          trace =
            [Log [LStr ''rtm.start ######### ws timeout''],
             Sleep 1,
             WatchdogReset 25,
             Log [LStr ''rtm.start handling event'', LStr hello_frame],
             Log [LStr ''rtm.start write %v'',
                  LMap [''type'' \<mapsto> VString ''message'', ''channel'' \<mapsto> VString ''C123'',
                        ''text'' \<mapsto> VString ''ready'', ''id'' \<mapsto> VInt64 0]],
             WsWrite (''{'' @ quoted ''channel'' @ '':'' @ quoted ''C123'' @ '','' @ quoted ''id''
                        @ '':0,'' @ quoted ''text'' @ '':'' @ quoted ''ready'' @ '',''
                        @ quoted ''type'' @ '':'' @ quoted ''message'' @ ''}'')]\<rparr>)"
    by (simp add: listen_empty_error_read example_world_def emit_def example_dispatch_greeter [OF len])
qed

section \<open>Frames longer than the buffer\<close>

text \<open>
  C1 fails on the code. The 5000-byte object \<open>big_frame\<close>, which decodes to an event of type
  \<^verbatim>\<open>hello\<close>, arrives as a read of 4096 bytes and a read of 904 bytes, and a handler is
  registered for \<^verbatim>\<open>hello\<close>. The loop hands only the last 904 bytes to \<^verbatim>\<open>json.Unmarshal\<close>, which
  rejects them: the frame is logged as unparsable and no event is dispatched (the handler
  has written nothing).
\<close>

theorem listen_decodes_last_chunk_only:
  "length big_frame = 5000
   \<and> json_Unmarshal example_ext big_frame = Inr big_event
   \<and> listen example_ext (Some (HandleEvent example_call)) zero_buffer
        (example_world (Handle NewServeMux ''hello'' (Some ''greeter'')))
        [(take 4096 big_frame, None), (drop 4096 big_frame, None)]
      = (Reading,
         \<lparr>client = \<lparr>ws = Some (Conn ''wss://example/ws'' ''http://localhost''), sendID = 0\<rparr>,
          router = Handle NewServeMux ''hello'' (Some ''greeter''),
          trace =
            [Log [LStr ''rtm.start reading event'', LInt 4096],
             WatchdogReset 25,
             Log [LStr ''rtm.start ###### error parsing event'', LStr (drop 4096 big_frame),
                  LErr (Error ''invalid character'')]]\<rparr>)"
proof (intro conjI)
  show "length big_frame = 5000"
    by (rule length_big_frame)
next
  show "json_Unmarshal example_ext big_frame = Inr big_event"
    using length_hello_frame length_ack_frame length_big_frame
    by (auto simp: example_ext_simps example_Unmarshal_def)
next
  have buf: "length zero_buffer = 4096"
    by (rule length_zero_buffer)
  have first: "length (take 4096 big_frame) = 4096"
    by (simp add: length_big_frame)
  have last: "length (drop 4096 big_frame) < 4096"
    by (simp add: length_big_frame)
  have bad: "json_Unmarshal example_ext (drop 4096 big_frame) = Inl (Error ''invalid character'')"
    by (simp add: example_ext_simps example_Unmarshal_other length_big_frame)
  show "listen example_ext (Some (HandleEvent example_call)) zero_buffer
        (example_world (Handle NewServeMux ''hello'' (Some ''greeter'')))
        [(take 4096 big_frame, None), (drop 4096 big_frame, None)]
      = (Reading,
         \<lparr>client = \<lparr>ws = Some (Conn ''wss://example/ws'' ''http://localhost''), sendID = 0\<rparr>,
          router = Handle NewServeMux ''hello'' (Some ''greeter''),
          trace =
            [Log [LStr ''rtm.start reading event'', LInt 4096],
             WatchdogReset 25,
             Log [LStr ''rtm.start ###### error parsing event'', LStr (drop 4096 big_frame),
                  LErr (Error ''invalid character'')]]\<rparr>)"
    by (simp only: listen_full_chunk [OF buf first] listen_decode_error [OF first last bad] listen_Nil)
       (simp add: example_world_def emit_def)
qed

section \<open>Handlers that panic\<close>

text \<open>
  C3 fails on the code. The handler registered for \<^verbatim>\<open>hello\<close> panics, and two \<^verbatim>\<open>hello\<close> frames
  arrive. The panic of the first dispatch leaves the loop and \<^verbatim>\<open>DialAndListen\<close>: the second
  frame is never read, decoded or dispatched.
\<close>

theorem handler_panic_ends_listen_loop:
  "listen example_ext (Some (HandleEvent example_call)) zero_buffer
     (example_world (Handle NewServeMux ''hello'' (Some ''faulty'')))
     [(hello_frame, None), (hello_frame, None)]
   = (Panicked (HandlerPanic ''boom''),
      \<lparr>client = \<lparr>ws = Some (Conn ''wss://example/ws'' ''http://localhost''), sendID = 0\<rparr>,
       router = Handle NewServeMux ''hello'' (Some ''faulty''),
       trace = [WatchdogReset 25, Log [LStr ''rtm.start handling event'', LStr hello_frame]]\<rparr>)
   \<and> fst (DialAndListen_default example_ext example_call ''token''
            (example_world (Handle NewServeMux ''hello'' (Some ''faulty'')))
            [(hello_frame, None), (hello_frame, None)])
       = Panicked (HandlerPanic ''boom'')"
proof -
  have d: "length hello_frame < 4096" by (simp add: length_hello_frame)
  have e: "json_Unmarshal example_ext hello_frame = Inr hello_event"
    by (simp add: example_ext_simps example_Unmarshal_hello)
  have step: "length msg = 4096 \<Longrightarrow> router w = Handle NewServeMux ''hello'' (Some ''faulty'') \<Longrightarrow>
      listen example_ext (Some (HandleEvent example_call)) msg w ((hello_frame, None) # rs)
      = (Panicked (HandlerPanic ''boom''),
         emit (Log [LStr ''rtm.start handling event'', LStr hello_frame]) (emit (WatchdogReset 25) w))"
    for msg rs and w :: "string world"
    by (simp add: listen_dispatch [OF _ d e] HandleEvent_def Handler_def hello_event_def Handle_def
        example_call_def emit_def)
  show ?thesis
    by (simp add: step length_zero_buffer example_world_def emit_def DialAndListen_default_def
        DialAndListen_def Client_zero_def example_ext_bootstrap example_StartResponse_accepted Let_def)
qed

end
